theory Spec2Isabelle
  imports Complex_Main "HOL-Library.Sublist" "HOL-Library.Word"
begin

section \<open>JavaScript strings\<close>

text \<open>
  A JavaScript string is a sequence of UTF-16 code units. The model covers the strings
  whose code units are below 256 (the Latin-1 range, which holds every keyword literal of
  the services): a \<^typ>\<open>char\<close> is one code unit, so \<open>length\<close> is the \<open>.length\<close> of
  the source and \<open>CHR 0xE9\<close> is the letter e with an acute accent.
\<close>

definition toLowerCase_char :: "char \<Rightarrow> char" where
  "toLowerCase_char c =
     (let n = (of_char c :: nat) in
      if (65 \<le> n \<and> n \<le> 90) \<or> (192 \<le> n \<and> n \<le> 222 \<and> n \<noteq> 215)
      then (case c of Char b0 b1 b2 b3 b4 b5 b6 b7 \<Rightarrow> Char b0 b1 b2 b3 b4 True b6 b7)
      else c)"

definition toLowerCase :: "string \<Rightarrow> string" where
  "toLowerCase s = map toLowerCase_char s"

text \<open>\<open>s.includes(k)\<close>: \<open>k\<close> occurs in \<open>s\<close> as a contiguous run.\<close>

fun str_includes :: "string \<Rightarrow> string \<Rightarrow> bool" where
  "str_includes [] k = (k = [])"
| "str_includes (c # cs) k = (prefix k (c # cs) \<or> str_includes cs k)"

text \<open>\<open>xs.some(p)\<close>, scanning from the left.\<close>

fun some :: "('a \<Rightarrow> bool) \<Rightarrow> 'a list \<Rightarrow> bool" where
  "some p [] = False"
| "some p (x # xs) = (p x \<or> some p xs)"

text \<open>The white space of \<open>trim\<close> and of the regular expression class \<open>\s\<close>, below 256.\<close>

definition isWhiteSpace :: "char \<Rightarrow> bool" where
  "isWhiteSpace c = ((of_char c :: nat) \<in> {9, 10, 11, 12, 13, 32, 160})"

definition trim :: "string \<Rightarrow> string" where
  "trim s = rev (dropWhile isWhiteSpace (rev (dropWhile isWhiteSpace s)))"

text \<open>\<open>s.split(sep)\<close> for a separator that matches exactly one code unit.\<close>

fun split_on :: "(char \<Rightarrow> bool) \<Rightarrow> string \<Rightarrow> string list" where
  "split_on p [] = [[]]"
| "split_on p (c # cs) =
     (if p c then [] # split_on p cs
      else (case split_on p cs of
              [] \<Rightarrow> [[c]]
            | w # ws \<Rightarrow> (c # w) # ws))"


text \<open>A string in a condition: the empty string is falsy.\<close>

definition truthy :: "string option \<Rightarrow> bool" where
  "truthy s = (case s of None \<Rightarrow> False | Some v \<Rightarrow> v \<noteq> [])"

section \<open>Errors\<close>

datatype error =
    ValidationError string
  | NotFoundError string
  | OpenAIError string nat
  | PrismaError string
  | CacheError

section \<open>TicketService\<close>

datatype priority = LOW | NORMAL | HIGH | URGENT

definition urgentKeywords_fr :: "string list" where
  "urgentKeywords_fr =
     [''urgent'', ''critique'', ''bloqu'' @ [CHR 0xE9], ''panne'', ''ne fonctionne pas'',
      ''cass'' @ [CHR 0xE9], ''erreur critique'']"

definition urgentKeywords_en :: "string list" where
  "urgentKeywords_en =
     [''urgent'', ''critical'', ''blocked'', ''down'', ''not working'', ''broken'',
      ''critical error'']"

definition highPriorityKeywords_fr :: "string list" where
  "highPriorityKeywords_fr =
     [''important'', ''rapidement'', ''vite'', ''probl'' @ [CHR 0xE8] @ ''me'', ''bug'',
      ''dysfonctionnement'']"

definition highPriorityKeywords_en :: "string list" where
  "highPriorityKeywords_en =
     [''important'', ''quickly'', ''fast'', ''problem'', ''bug'', ''malfunction'']"

text \<open>
  \<open>this.urgentKeywords[language] || this.urgentKeywords.fr\<close>: the table has the keys
  \<open>fr\<close> and \<open>en\<close>, and every other language falls back to the French list.
\<close>

definition urgentKeywords :: "string \<Rightarrow> string list" where
  "urgentKeywords language =
     (if language = ''fr'' then urgentKeywords_fr
      else if language = ''en'' then urgentKeywords_en
      else urgentKeywords_fr)"

definition highPriorityKeywords :: "string \<Rightarrow> string list" where
  "highPriorityKeywords language =
     (if language = ''fr'' then highPriorityKeywords_fr
      else if language = ''en'' then highPriorityKeywords_en
      else highPriorityKeywords_fr)"

definition determinePriority :: "string \<Rightarrow> string \<Rightarrow> priority" where
  "determinePriority text language =
     (let lowerText = toLowerCase text;
          urgentWords = urgentKeywords language
      in if some (\<lambda>word. str_includes lowerText word) urgentWords then URGENT
         else
           (let highPriorityWords = highPriorityKeywords language
            in if some (\<lambda>word. str_includes lowerText word) highPriorityWords then HIGH
               else NORMAL))"

text \<open>
  A row of the ticket table. Identifiers are opaque strings; times are milliseconds since
  the epoch. The status is a string, as the caller of \<open>updateTicketStatus\<close> passes one.
\<close>

record ticket =
  t_id :: string
  t_userId :: string
  t_title :: string
  t_description :: string
  t_category :: string
  t_priority :: priority
  t_status :: string
  t_assignedAgent :: "string option"
  t_resolution :: "string option"
  t_createdAt :: int
  t_resolvedAt :: "int option"
  t_updatedAt :: int

text \<open>
  What \<open>updateTicketStatus\<close> reads and writes: the ticket table by primary key, the cache
  (keys to serialized values) and whether the cache server answers.
\<close>

record ticket_world =
  db_tickets :: "string \<rightharpoonup> ticket"
  ticket_cache :: "string \<rightharpoonup> string"
  redis_up :: bool

definition validStatuses :: "string list" where
  "validStatuses = [''OPEN'', ''IN_PROGRESS'', ''WAITING_CUSTOMER'', ''RESOLVED'', ''CLOSED'']"

text \<open>
  \<open>updateTicketStatus(ticketId, newStatus, resolution, agentId)\<close>. The two clock readings
  are \<open>now1\<close> (for \<open>updatedAt\<close>) and \<open>now2\<close> (for \<open>resolvedAt\<close>). The update of a row that
  does not exist is rejected by the database; a cache deletion fails when the cache
  server is down, after the row has been written. The result pairs what the caller gets
  with the state left behind.
\<close>

definition updateTicketStatus ::
  "ticket_world \<Rightarrow> string \<Rightarrow> string \<Rightarrow> string option \<Rightarrow> string option \<Rightarrow> int \<Rightarrow> int
     \<Rightarrow> (error + ticket) \<times> ticket_world" where
  "updateTicketStatus w ticketId newStatus resolution agentId now1 now2 =
     (if \<not> List.member validStatuses newStatus
      then (Inl (ValidationError (''Statut invalide: '' @ newStatus)), w)
      else
        (case db_tickets w ticketId of
           None \<Rightarrow> (Inl (PrismaError ''P2025''), w)
         | Some t \<Rightarrow>
             (let u1 = t\<lparr>t_status := newStatus, t_updatedAt := now1\<rparr>;
                  u2 = (if truthy resolution then u1\<lparr>t_resolution := resolution\<rparr> else u1);
                  u3 = (if truthy agentId then u2\<lparr>t_assignedAgent := agentId\<rparr> else u2);
                  u4 = (if newStatus = ''RESOLVED'' \<or> newStatus = ''CLOSED''
                        then u3\<lparr>t_resolvedAt := Some now2\<rparr> else u3);
                  w1 = w\<lparr>db_tickets := (db_tickets w)(ticketId \<mapsto> u4)\<rparr>
              in if \<not> redis_up w1 then (Inl CacheError, w1)
                 else
                   (Inr u4,
                    w1\<lparr>ticket_cache :=
                         ((ticket_cache w1)(''ticket:'' @ ticketId := None))
                           (''tickets:user:'' @ t_userId u4 := None)\<rparr>))))"

section \<open>Conversations\<close>

datatype conversation_status = ACTIVE | ENDED

record conversation =
  conv_id :: string
  conv_userId :: string
  conv_status :: conversation_status
  startedAt :: int
  endedAt :: "int option"
  conv_context :: string












section \<open>NLPService\<close>

definition supportedIntents :: "string list" where
  "supportedIntents =
     [''greeting'', ''help'', ''create_ticket'', ''check_ticket_status'', ''faq'',
      ''contact_agent'', ''goodbye'', ''complaint'', ''compliment'', ''product_inquiry'',
      ''order_status'', ''refund_request'', ''technical_support'', ''billing_inquiry'']"

text \<open>
  \<open>hashText\<close>: \<open>hash = ((hash << 5) - hash) + char; hash = hash & hash\<close> over the code
  units, in 32-bit two's complement, then \<open>Math.abs(hash).toString(36)\<close>.
\<close>

definition hash_step :: "32 word \<Rightarrow> char \<Rightarrow> 32 word" where
  "hash_step hash c = (push_bit 5 hash - hash) + of_nat (of_char c)"

definition digit36 :: "nat \<Rightarrow> char" where
  "digit36 d = ''0123456789abcdefghijklmnopqrstuvwxyz'' ! d"

function toString36 :: "nat \<Rightarrow> string" where
  "toString36 n = (if n < 36 then [digit36 n] else toString36 (n div 36) @ [digit36 (n mod 36)])"
  by pat_completeness auto
termination
  by (relation "measure id") auto

declare toString36.simps [simp del]

definition hashText :: "string \<Rightarrow> string" where
  "hashText text = toString36 (nat \<bar>sint (foldl hash_step 0 text)\<bar>)"

text \<open>
  The result of an intent analysis. The entities are kept as their JSON text, the
  timestamp as the clock reading it is printed from; \<open>fallback\<close> is the flag that only the
  keyword fallback sets.
\<close>

record intent_result =
  intent :: string
  confidence :: rat
  entities :: string
  sentiment :: string
  originalText :: string
  ir_language :: string
  ir_timestamp :: int
  fallback :: bool

text \<open>
  The object \<open>JSON.parse\<close> gives for the model's reply, field by field: a field is
  \<open>None\<close> when it is missing, and \<open>raw_confidence\<close> is \<open>None\<close> when \<open>parseFloat\<close>
  gives no number.
\<close>

record raw_result =
  raw_intent :: "string option"
  raw_confidence :: "rat option"
  raw_entities :: "string option"
  raw_sentiment :: "string option"

definition normalizeIntentResult :: "raw_result \<Rightarrow> string \<Rightarrow> string \<Rightarrow> int \<Rightarrow> intent_result" where
  "normalizeIntentResult result originalText' language now =
     \<lparr>intent = (case raw_intent result of
                   None \<Rightarrow> ''unknown''
                 | Some i \<Rightarrow> if List.member supportedIntents i then i else ''unknown''),
      confidence = max 0 (min 1 (case raw_confidence result of None \<Rightarrow> 0 | Some c \<Rightarrow> c)),
      entities = (case raw_entities result of None \<Rightarrow> ''{}'' | Some e \<Rightarrow> e),
      sentiment = (case raw_sentiment result of
                     None \<Rightarrow> ''neutral''
                   | Some s \<Rightarrow> if s = [] then ''neutral'' else s),
      originalText = take 200 originalText',
      ir_language = language,
      ir_timestamp = now,
      fallback = False\<rparr>"

definition keywordMap :: "(string \<times> string list) list" where
  "keywordMap =
     [(''greeting'', [''bonjour'', ''bonsoir'', ''salut'', ''hello'', ''hi'', ''good morning'',
                      ''good evening'']),
      (''help'', [''aide'', ''aider'', ''help'', ''assistance'', ''support'']),
      (''create_ticket'', [''probl'' @ [CHR 0xE8] @ ''me'', ''bug'', ''erreur'', ''problem'',
                           ''issue'', ''error'']),
      (''contact_agent'', [''agent'', ''humain'', ''personne'', ''human'', ''person'',
                           ''representative'']),
      (''goodbye'', [''au revoir'', ''bye'', ''goodbye'', ''merci'', ''thank you'']),
      (''complaint'', [CHR ''m'' # CHR 0xE9 # ''content'', ''insatisfait'', ''nul'', ''mauvais'',
                       ''unhappy'', ''bad'', ''terrible''])]"

text \<open>The two nested loops of the fallback: the first intent, in the order of the table,
  one of whose keywords occurs in the lower-cased text.\<close>

fun firstKeywordIntent :: "string \<Rightarrow> (string \<times> string list) list \<Rightarrow> string option" where
  "firstKeywordIntent lowerText [] = None"
| "firstKeywordIntent lowerText ((i, keywords) # rest) =
     (if some (\<lambda>keyword. str_includes lowerText keyword) keywords then Some i
      else firstKeywordIntent lowerText rest)"

definition fallbackIntentAnalysis :: "string \<Rightarrow> string \<Rightarrow> int \<Rightarrow> intent_result" where
  "fallbackIntentAnalysis text language now =
     (let lowerText = toLowerCase text in
      case firstKeywordIntent lowerText keywordMap of
        Some i \<Rightarrow>
          \<lparr>intent = i, confidence = 6 / 10, entities = ''{}'', sentiment = ''neutral'',
           originalText = take 200 text, ir_language = language, ir_timestamp = now,
           fallback = True\<rparr>
      | None \<Rightarrow>
          \<lparr>intent = ''unknown'', confidence = 1 / 10, entities = ''{}'', sentiment = ''neutral'',
           originalText = take 200 text, ir_language = language, ir_timestamp = now,
           fallback = True\<rparr>)"

text \<open>
  The cache behind \<open>CacheService\<close>, for the keys of the intent analysis: a key holds a
  value until its expiry time (in milliseconds). \<open>get\<close> answers \<open>null\<close> when the server is
  down, \<open>set\<close> throws then. \<open>model_calls\<close> counts the requests \<open>analyzeIntent\<close> sends to
  the hosted model.
\<close>

record nlp_world =
  intent_cache :: "string \<rightharpoonup> (intent_result \<times> int)"
  nlp_redis_up :: bool
  model_calls :: nat

definition cache_get :: "nlp_world \<Rightarrow> string \<Rightarrow> int \<Rightarrow> intent_result option" where
  "cache_get w key now =
     (if \<not> nlp_redis_up w then None
      else (case intent_cache w key of
              None \<Rightarrow> None
            | Some (v, expiry) \<Rightarrow> if now < expiry then Some v else None))"

definition cache_set :: "nlp_world \<Rightarrow> string \<Rightarrow> intent_result \<Rightarrow> int \<Rightarrow> int \<Rightarrow> nlp_world option" where
  "cache_set w key v ttl now =
     (if \<not> nlp_redis_up w then None
      else Some (w\<lparr>intent_cache := (intent_cache w)(key \<mapsto> (v, now + ttl * 1000))\<rparr>))"

definition cacheTTL :: int where
  "cacheTTL = 1800"

text \<open>
  What the hosted model does with one request: the call is rejected with an error that
  may carry a \<open>code\<close>, or the reply cannot be read as the JSON object asked for, or it
  parses to an object.
\<close>

datatype model_outcome =
    CallRejected "string option"
  | ReplyUnparseable
  | ReplyParsed raw_result

text \<open>The \<open>catch\<close> block of \<open>analyzeIntent\<close>, given the \<open>code\<close> of the error caught.\<close>

definition analyzeIntent_catch :: "string option \<Rightarrow> string \<Rightarrow> string \<Rightarrow> int \<Rightarrow> error + intent_result" where
  "analyzeIntent_catch code text language now =
     (if code = Some ''insufficient_quota'' \<or> code = Some ''rate_limit_exceeded''
      then Inl (OpenAIError ''Service IA temporairement indisponible'' 503)
      else Inr (fallbackIntentAnalysis text language now))"

definition analyzeIntent ::
  "nlp_world \<Rightarrow> model_outcome \<Rightarrow> string \<Rightarrow> string \<Rightarrow> int \<Rightarrow> (error + intent_result) \<times> nlp_world" where
  "analyzeIntent w outcome text language now =
     (let cacheKey = ''nlp:intent:'' @ hashText text @ '':'' @ language in
      case cache_get w cacheKey now of
        Some cachedResult \<Rightarrow> (Inr cachedResult, w)
      | None \<Rightarrow>
          (let w1 = w\<lparr>model_calls := Suc (model_calls w)\<rparr> in
           case outcome of
             CallRejected code \<Rightarrow> (analyzeIntent_catch code text language now, w1)
           | ReplyUnparseable \<Rightarrow> (analyzeIntent_catch None text language now, w1)
           | ReplyParsed result \<Rightarrow>
               (let normalizedResult = normalizeIntentResult result text language now in
                case cache_set w1 cacheKey normalizedResult cacheTTL now of
                  None \<Rightarrow> (analyzeIntent_catch None text language now, w1)
                | Some w2 \<Rightarrow> (Inr normalizedResult, w2))))"

section \<open>MessageLocalizationService\<close>

text \<open>
  The message catalogue: language, then key, to text. \<open>getLocalizedMessage\<close> is
  \<open>messages[language]?.[key] || messages[defaultLanguage]?.[key] || key\<close>; the catalogue
  of the source is a parameter here (its texts are data, and the handlers below only name
  keys).
\<close>

type_synonym catalogue = "string \<rightharpoonup> (string \<rightharpoonup> string)"

definition catalogue_entry :: "catalogue \<Rightarrow> string \<Rightarrow> string \<Rightarrow> string option" where
  "catalogue_entry messages language key =
     (case messages language of None \<Rightarrow> None | Some table \<Rightarrow> table key)"

definition getLocalizedMessage :: "catalogue \<Rightarrow> string \<Rightarrow> string \<Rightarrow> string \<Rightarrow> string" where
  "getLocalizedMessage messages defaultLanguage key language =
     (case catalogue_entry messages language key of
        Some m \<Rightarrow>
          if m \<noteq> [] then m
          else (case catalogue_entry messages defaultLanguage key of
                  Some d \<Rightarrow> if d \<noteq> [] then d else key
                | None \<Rightarrow> key)
      | None \<Rightarrow>
          (case catalogue_entry messages defaultLanguage key of
             Some d \<Rightarrow> if d \<noteq> [] then d else key
           | None \<Rightarrow> key))"

section \<open>IntentHandler and MessageProcessor\<close>

record user =
  user_id :: string
  phoneNumber :: string
  user_name :: "string option"
  user_language :: string

text \<open>The fields the handlers write into the free-form context of a session.\<close>

record session_context =
  pendingHandoff :: "bool option"
  handoffReason :: "string option"
  handoffTimestamp :: "int option"
  ctx_endedAt :: "int option"

record session =
  conversationId :: string
  session_language :: string
  session_context :: session_context
  lastActivity :: int
  session_status :: "string option"

datatype response =
    TextResponse string
  | InteractiveResponse string "(string \<times> string) list"
  | ListResponse string string "(string \<times> (string \<times> string \<times> string) list) list"

text \<open>
  The configuration of the processor: the catalogue, the languages, the two thresholds,
  the hand-off keywords and the conversational fallback text per language.
\<close>

record config =
  messages :: catalogue
  defaultLanguage :: string
  supportedLanguages :: "string list"
  confidenceThreshold :: rat
  knowledgeBaseThreshold :: rat
  autoHandoffKeywords :: "string option"
  fallbackConversationalMessage :: "string \<Rightarrow> string"

text \<open>
  \<open>process.env.AUTO_HANDOFF_KEYWORDS?.split(',') || ['agent', 'humain', 'personne',
  'help', 'aide']\<close>.
\<close>

definition handoffKeywords :: "config \<Rightarrow> string list" where
  "handoffKeywords cfg =
     (case autoHandoffKeywords cfg of
        None \<Rightarrow> [''agent'', ''humain'', ''personne'', ''help'', ''aide'']
      | Some s \<Rightarrow> split_on (\<lambda>c. c = CHR '','') s)"

definition shouldTransferToHuman :: "config \<Rightarrow> string \<Rightarrow> string \<Rightarrow> bool" where
  "shouldTransferToHuman cfg text language =
     (let keywords = handoffKeywords cfg;
          lowerText = toLowerCase text
      in some (\<lambda>keyword. str_includes lowerText (toLowerCase keyword)) keywords)"

text \<open>
  The state one message is processed in: the user and the session objects the handlers
  mutate, the conversation table, the stored language of each user, the world of the
  intent analysis, and the number of calls of \<open>analyzeIntent\<close>.
\<close>

record bot_state =
  st_user :: user
  st_session :: session
  st_conversations :: "conversation list"
  st_languages :: "string \<rightharpoonup> string"
  st_nlp :: nlp_world
  st_classifier_calls :: nat

text \<open>
  What the collaborators answer while one text message is processed: the language
  \<open>detectLanguage\<close> returns, whether the update of the user's row fails (the error is
  logged and dropped), what the hosted model does with the intent request, the best match
  of the knowledge base (answer and confidence), the text \<open>generateAIResponse\<close> returns,
  and the clock.
\<close>

record text_env =
  detectedLanguage :: "string option"
  languageUpdateFails :: bool
  intentOutcome :: model_outcome
  kbResult :: "(string \<times> rat) option"
  aiResponse :: "string option"
  clock :: int

definition initiateHumanHandoff :: "config \<Rightarrow> bot_state \<Rightarrow> string \<Rightarrow> int \<Rightarrow> response \<times> bot_state" where
  "initiateHumanHandoff cfg st originalText' now =
     (let s = st_session st;
          s' = s\<lparr>session_context := (session_context s)
                  \<lparr>pendingHandoff := Some True,
                   handoffReason := Some originalText',
                   handoffTimestamp := Some now\<rparr>\<rparr>
      in (TextResponse (getLocalizedMessage (messages cfg) (defaultLanguage cfg)
                          ''handoff.initiated'' (user_language (st_user st))),
          st\<lparr>st_session := s'\<rparr>))"

definition handleGoodbye :: "config \<Rightarrow> bot_state \<Rightarrow> int \<Rightarrow> response \<times> bot_state" where
  "handleGoodbye cfg st now =
     (let s = st_session st;
          s' = s\<lparr>session_status := Some ''ENDED'',
                 session_context := (session_context s)\<lparr>ctx_endedAt := Some now\<rparr>\<rparr>
      in (TextResponse (getLocalizedMessage (messages cfg) (defaultLanguage cfg)
                          ''goodbye.message'' (user_language (st_user st))),
          st\<lparr>st_session := s'\<rparr>))"

definition getFallbackResponse :: "config \<Rightarrow> bot_state \<Rightarrow> response" where
  "getFallbackResponse cfg st =
     (let language = user_language (st_user st);
          title = (\<lambda>key. getLocalizedMessage (messages cfg) (defaultLanguage cfg) key language)
      in InteractiveResponse (fallbackConversationalMessage cfg language)
           [(''help'', title ''buttons.help''), (''faq'', title ''buttons.faq''),
            (''contact_agent'', title ''buttons.contact_agent'')])"

text \<open>
  \<open>handleIntent\<close>: the branches \<open>contact_agent\<close> and \<open>goodbye\<close> as the source has them; the
  handlers of the other intents (greeting, help, tickets, FAQ, generated answers) are the
  parameter \<open>others\<close>.
\<close>

definition handleIntent ::
  "config \<Rightarrow> (intent_result \<Rightarrow> bot_state \<Rightarrow> string \<Rightarrow> response \<times> bot_state)
     \<Rightarrow> intent_result \<Rightarrow> bot_state \<Rightarrow> string \<Rightarrow> int \<Rightarrow> response \<times> bot_state" where
  "handleIntent cfg others nlpResult st originalText' now =
     (if intent nlpResult = ''contact_agent'' then initiateHumanHandoff cfg st originalText' now
      else if intent nlpResult = ''goodbye'' then handleGoodbye cfg st now
      else others nlpResult st originalText')"

text \<open>The first step of \<open>processTextMessage\<close>: language detection and the switch.\<close>

definition switchLanguage :: "config \<Rightarrow> text_env \<Rightarrow> bot_state \<Rightarrow> bot_state" where
  "switchLanguage cfg env st =
     (case detectedLanguage env of
        None \<Rightarrow> st
      | Some d \<Rightarrow>
          if d \<noteq> [] \<and> List.member (supportedLanguages cfg) d \<and> d \<noteq> user_language (st_user st)
          then st\<lparr>st_languages :=
                     (if languageUpdateFails env then st_languages st
                      else (st_languages st)(user_id (st_user st) \<mapsto> d)),
                   st_user := (st_user st)\<lparr>user_language := d\<rparr>\<rparr>
          else st)"

definition processTextMessage ::
  "config \<Rightarrow> (intent_result \<Rightarrow> bot_state \<Rightarrow> string \<Rightarrow> response \<times> bot_state)
     \<Rightarrow> text_env \<Rightarrow> bot_state \<Rightarrow> string \<Rightarrow> (error + response) \<times> bot_state" where
  "processTextMessage cfg others env st text =
     (let st1 = switchLanguage cfg env st;
          language = user_language (st_user st1)
      in if shouldTransferToHuman cfg text language
         then (case initiateHumanHandoff cfg st1 text (clock env) of
                 (r, st2) \<Rightarrow> (Inr r, st2))
         else
           (case analyzeIntent (st_nlp st1) (intentOutcome env) text language (clock env) of
              (res, nlp') \<Rightarrow>
                (let st2 = st1\<lparr>st_nlp := nlp',
                              st_classifier_calls := Suc (st_classifier_calls st1)\<rparr>
                 in case res of
                      Inl e \<Rightarrow> (Inl e, st2)
                    | Inr nlpResult \<Rightarrow>
                        if confidenceThreshold cfg \<le> confidence nlpResult
                        then (case handleIntent cfg others nlpResult st2 text (clock env) of
                                (r, st3) \<Rightarrow> (Inr r, st3))
                        else
                          (case kbResult env of
                             Some (answer, c) \<Rightarrow>
                               if knowledgeBaseThreshold cfg < c then (Inr (TextResponse answer), st2)
                               else (case aiResponse env of
                                       Some a \<Rightarrow>
                                         if 10 < length a then (Inr (TextResponse a), st2)
                                         else (Inr (getFallbackResponse cfg st2), st2)
                                     | None \<Rightarrow> (Inr (getFallbackResponse cfg st2), st2))
                           | None \<Rightarrow>
                               (case aiResponse env of
                                  Some a \<Rightarrow>
                                    if 10 < length a then (Inr (TextResponse a), st2)
                                    else (Inr (getFallbackResponse cfg st2), st2)
                                | None \<Rightarrow> (Inr (getFallbackResponse cfg st2), st2))))))"

section \<open>KnowledgeBaseService\<close>

text \<open>Scores are JavaScript numbers in the source; the model computes them as rationals.\<close>

record kb_entry =
  kb_id :: string
  question :: string
  answer :: string
  kb_category :: string
  kb_language :: string
  kb_keywords :: "string list"
  usageCount :: int
  isActive :: bool

record kb_result =
  r_id :: string
  r_question :: string
  r_answer :: string
  r_category :: string
  r_confidence :: rat
  r_source :: string

text \<open>The value of \<open>score\<close> at the end of \<open>calculateKeywordConfidence\<close>.\<close>

definition keywordScore :: "string \<Rightarrow> string list \<Rightarrow> kb_entry \<Rightarrow> rat" where
  "keywordScore query queryWords entry =
     (let score1 = (if str_includes (toLowerCase (question entry)) query then 2 else 0);
          matchingKeywords =
            filter (\<lambda>word. some (\<lambda>keyword. str_includes (toLowerCase keyword) word)
                              (kb_keywords entry)) queryWords;
          score2 = score1 + of_nat (length matchingKeywords);
          questionWords = split_on (\<lambda>c. c = CHR '' '') (toLowerCase (question entry));
          matchingWords =
            filter (\<lambda>word. some (\<lambda>qWord. str_includes qWord word) questionWords) queryWords;
          score3 = score2 + of_nat (length matchingWords) * (1 / 2)
      in if 10 < usageCount entry then score3 + 2 / 10 else score3)"

definition calculateKeywordConfidence :: "string \<Rightarrow> string list \<Rightarrow> kb_entry \<Rightarrow> rat" where
  "calculateKeywordConfidence query queryWords entry =
     (let maxScore = of_nat (length queryWords + 2)
      in min (keywordScore query queryWords entry / maxScore) 1)"

text \<open>
  The world of a search: the table of entries, the search cache (a key holds a result
  list until its expiry time), whether the cache server and the database answer, and the
  world of the intent analysis that the semantic tier calls.
\<close>

record kb_world =
  kb_entries :: "kb_entry list"
  kb_cache :: "string \<rightharpoonup> (kb_result list \<times> int)"
  kb_redis_up :: bool
  kb_db_up :: bool
  kb_nlp :: nlp_world

text \<open>
  What the hosted model does during one search: with the intent request of the semantic
  tier, and with the request for relevance scores (\<open>None\<close> when the call or the parsing
  fails, and then every score is 0).
\<close>

record search_env =
  semanticIntentOutcome :: model_outcome
  relevanceScores :: "rat list option"
  search_clock :: int

definition searchCacheTTL :: int where
  "searchCacheTTL = 1800"

definition similarityThreshold :: rat where
  "similarityThreshold = 6 / 10"

definition kb_cache_get :: "kb_world \<Rightarrow> string \<Rightarrow> int \<Rightarrow> kb_result list option" where
  "kb_cache_get w key now =
     (if \<not> kb_redis_up w then None
      else (case kb_cache w key of
              None \<Rightarrow> None
            | Some (v, expiry) \<Rightarrow> if now < expiry then Some v else None))"

definition kb_cache_set :: "kb_world \<Rightarrow> string \<Rightarrow> kb_result list \<Rightarrow> int \<Rightarrow> int \<Rightarrow> kb_world option" where
  "kb_cache_set w key v ttl now =
     (if \<not> kb_redis_up w then None
      else Some (w\<lparr>kb_cache := (kb_cache w)(key \<mapsto> (v, now + ttl * 1000))\<rparr>))"

text \<open>A number printed in base 10, as in a template string.\<close>

function toString10 :: "nat \<Rightarrow> string" where
  "toString10 n = (if n < 10 then [digit36 n] else toString10 (n div 10) @ [digit36 (n mod 10)])"
  by pat_completeness auto
termination
  by (relation "measure id") auto

declare toString10.simps [simp del]

text \<open>
  \<open>findMany\<close> with a filter, \<open>orderBy: {usageCount: 'desc'}\<close> and \<open>take\<close>; the database
  rejects the query when it is down.
\<close>

definition findMany :: "kb_world \<Rightarrow> (kb_entry \<Rightarrow> bool) \<Rightarrow> nat \<Rightarrow> kb_entry list option" where
  "findMany w wh n =
     (if \<not> kb_db_up w then None
      else Some (take n (sort_key (\<lambda>e. - usageCount e) (filter wh (kb_entries w)))))"

definition toKeywordResult :: "string \<Rightarrow> string list \<Rightarrow> kb_entry \<Rightarrow> kb_result" where
  "toKeywordResult query queryWords entry =
     \<lparr>r_id = kb_id entry, r_question = question entry, r_answer = answer entry,
      r_category = kb_category entry,
      r_confidence = calculateKeywordConfidence query queryWords entry,
      r_source = ''keyword''\<rparr>"

definition searchByKeywords :: "kb_world \<Rightarrow> string \<Rightarrow> string \<Rightarrow> nat \<Rightarrow> kb_result list" where
  "searchByKeywords w query language limit =
     (let queryWords = filter (\<lambda>word. 2 < length word) (split_on (\<lambda>c. c = CHR '' '') query)
      in if queryWords = [] then []
         else
           (case findMany w
                   (\<lambda>e. kb_language e = language \<and> isActive e
                        \<and> (str_includes (toLowerCase (question e)) (toLowerCase query)
                             \<or> some (\<lambda>k. List.member queryWords k) (kb_keywords e)))
                   (limit * 2) of
              None \<Rightarrow> []
            | Some entries \<Rightarrow>
                take limit
                  (sort_key (\<lambda>r. - r_confidence r)
                     (filter (\<lambda>r. 3 / 10 < r_confidence r)
                        (map (toKeywordResult query queryWords) entries)))))"

text \<open>\<open>evaluateSemanticRelevance\<close>: no request for an empty list of entries.\<close>

definition evaluateSemanticRelevance :: "search_env \<Rightarrow> kb_entry list \<Rightarrow> rat list" where
  "evaluateSemanticRelevance env entries =
     (if entries = [] then []
      else (case relevanceScores env of
              None \<Rightarrow> map (\<lambda>e. 0) entries
            | Some scores \<Rightarrow> scores))"

definition toSemanticResult :: "rat list \<Rightarrow> kb_entry \<times> nat \<Rightarrow> kb_result" where
  "toSemanticResult semanticScores p =
     (case p of (entry, index) \<Rightarrow>
        \<lparr>r_id = kb_id entry, r_question = question entry, r_answer = answer entry,
         r_category = kb_category entry,
         r_confidence = (if index < length semanticScores then semanticScores ! index else 0),
         r_source = ''semantic''\<rparr>)"

definition searchSemantic ::
  "kb_world \<Rightarrow> search_env \<Rightarrow> string \<Rightarrow> string \<Rightarrow> nat \<Rightarrow> kb_result list \<times> kb_world" where
  "searchSemantic w env query language limit =
     (case analyzeIntent (kb_nlp w) (semanticIntentOutcome env) query language (search_clock env) of
        (res, nlp') \<Rightarrow>
          (let w1 = w\<lparr>kb_nlp := nlp'\<rparr> in
           case res of
             Inl e \<Rightarrow> ([], w1)
           | Inr nlpResult \<Rightarrow>
               (case findMany w1 (\<lambda>e. kb_language e = language \<and> isActive e) 20 of
                  None \<Rightarrow> ([], w1)
                | Some entries \<Rightarrow>
                    (let semanticScores = evaluateSemanticRelevance env entries
                     in (take limit
                           (sort_key (\<lambda>r. - r_confidence r)
                              (filter (\<lambda>r. similarityThreshold < r_confidence r)
                                 (map (toSemanticResult semanticScores)
                                    (zip entries [0 ..< length entries])))),
                         w1)))))"

definition searchCacheKey :: "string \<Rightarrow> string \<Rightarrow> nat \<Rightarrow> string" where
  "searchCacheKey normalizedQuery language limit =
     ''kb:search:'' @ hashText normalizedQuery @ '':'' @ language @ '':'' @ toString10 limit"

text \<open>\<open>results[0] || null\<close>.\<close>

definition firstOrNull :: "kb_result list \<Rightarrow> kb_result option" where
  "firstOrNull results = (case results of [] \<Rightarrow> None | r # rest \<Rightarrow> Some r)"

text \<open>The \<open>try\<close> block of \<open>search\<close>.\<close>

definition search_try ::
  "kb_world \<Rightarrow> search_env \<Rightarrow> string \<Rightarrow> string \<Rightarrow> nat \<Rightarrow> (error + kb_result option) \<times> kb_world" where
  "search_try w env query language limit =
     (if query = [] \<or> length (trim query) = 0
      then (Inl (ValidationError (''La requ'' @ [CHR 0xEA] @ ''te de recherche est requise'')), w)
      else
        (let normalizedQuery = toLowerCase (trim query);
             cacheKey = searchCacheKey normalizedQuery language limit
         in case kb_cache_get w cacheKey (search_clock env) of
              Some results \<Rightarrow> (Inr (firstOrNull results), w)
            | None \<Rightarrow>
                (let keywordResults = searchByKeywords w normalizedQuery language limit
                 in if keywordResults \<noteq> [] \<and> 8 / 10 < r_confidence (hd keywordResults)
                    then (case kb_cache_set w cacheKey keywordResults searchCacheTTL
                                 (search_clock env) of
                            None \<Rightarrow> (Inl CacheError, w)
                          | Some w1 \<Rightarrow> (Inr (Some (hd keywordResults)), w1))
                    else
                      (case searchSemantic w env normalizedQuery language limit of
                         (semanticResults, w1) \<Rightarrow>
                           (let allResults =
                                  take limit (sort_key (\<lambda>r. - r_confidence r)
                                                (keywordResults @ semanticResults))
                            in case kb_cache_set w1 cacheKey allResults searchCacheTTL
                                      (search_clock env) of
                                 None \<Rightarrow> (Inl CacheError, w1)
                               | Some w2 \<Rightarrow> (Inr (firstOrNull allResults), w2))))))"

text \<open>\<open>search(query, language, limit)\<close>: every error of the block is logged and answered with \<open>null\<close>.\<close>

definition search ::
  "kb_world \<Rightarrow> search_env \<Rightarrow> string \<Rightarrow> string \<Rightarrow> nat \<Rightarrow> (error + kb_result option) \<times> kb_world" where
  "search w env query language limit =
     (case search_try w env query language limit of
        (Inl e, w') \<Rightarrow> (Inr None, w')
      | (Inr r, w') \<Rightarrow> (Inr r, w'))"

section \<open>MessageFormatter and TicketMessageHandler\<close>










record ticket_info =
  title :: string
  description :: string
  category :: "string option"








section \<open>Example states\<close>

definition example_ticket :: ticket where
  "example_ticket = \<lparr>t_id = ''t1'', t_userId = ''u1'', t_title = ''Login broken'',
     t_description = ''cannot sign in'', t_category = ''technical'', t_priority = URGENT,
     t_status = ''OPEN'', t_assignedAgent = None, t_resolution = None, t_createdAt = 1000,
     t_resolvedAt = None, t_updatedAt = 1000\<rparr>"

definition example_ticket_world :: ticket_world where
  "example_ticket_world = \<lparr>db_tickets = [''t1'' \<mapsto> example_ticket],
     ticket_cache = [''ticket:t1'' \<mapsto> ''cached''], redis_up = True\<rparr>"

definition example_conversation :: conversation where
  "example_conversation = \<lparr>conv_id = ''c1'', conv_userId = ''u1'', conv_status = ACTIVE,
     startedAt = 0, endedAt = None, conv_context = ''{}''\<rparr>"

definition empty_nlp_world :: nlp_world where
  "empty_nlp_world = \<lparr>intent_cache = Map.empty, nlp_redis_up = True, model_calls = 0\<rparr>"

definition goodbye_reply :: raw_result where
  "goodbye_reply = \<lparr>raw_intent = Some ''goodbye'', raw_confidence = Some (9 / 10),
     raw_entities = None, raw_sentiment = Some ''positive''\<rparr>"

text \<open>The two catalogue entries of the source that the examples read, in English.\<close>

definition example_messages :: catalogue where
  "example_messages =
     [''en'' \<mapsto>
        [''handoff.initiated'' \<mapsto> ''I'' @ [CHR 0x27] @ ''m connecting you with a human agent. Please wait...'',
         ''goodbye.message'' \<mapsto> ''Thank you for using our service. Feel free to come back if you have any other questions. Have a great day!'']]"

definition example_config :: config where
  "example_config =
     \<lparr>messages = example_messages, defaultLanguage = ''fr'', supportedLanguages = [''fr'', ''en''],
      confidenceThreshold = 1 / 2, knowledgeBaseThreshold = 4 / 10, autoHandoffKeywords = None,
      fallbackConversationalMessage = (\<lambda>language. ''fallback'')\<rparr>"

definition example_state :: bot_state where
  "example_state =
     \<lparr>st_user = \<lparr>user_id = ''u1'', phoneNumber = ''221770000000'', user_name = None,
                  user_language = ''en''\<rparr>,
      st_session = \<lparr>conversationId = ''c1'', session_language = ''en'',
                     session_context = \<lparr>pendingHandoff = None, handoffReason = None,
                                          handoffTimestamp = None, ctx_endedAt = None\<rparr>,
                     lastActivity = 0, session_status = None\<rparr>,
      st_conversations = [example_conversation],
      st_languages = [''u1'' \<mapsto> ''en''],
      st_nlp = empty_nlp_world,
      st_classifier_calls = 0\<rparr>"

definition example_env :: text_env where
  "example_env =
     \<lparr>detectedLanguage = None, languageUpdateFails = False,
      intentOutcome = ReplyParsed goodbye_reply, kbResult = None, aiResponse = None,
      clock = 5000\<rparr>"

definition example_entry :: kb_entry where
  "example_entry =
     \<lparr>kb_id = ''k1'', question = ''How to reset password'',
      answer = ''Use the link on the sign-in page.'', kb_category = ''account'',
      kb_language = ''en'', kb_keywords = [''reset'', ''password''], usageCount = 11,
      isActive = True\<rparr>"

definition stale_result :: kb_result where
  "stale_result =
     \<lparr>r_id = ''k2'', r_question = ''What are your opening hours?'',
      r_answer = ''Our automated customer service is available 24/7.'',
      r_category = ''general'', r_confidence = 9 / 10, r_source = ''keyword''\<rparr>"

text \<open>No entry in the table, and a result list still in the cache for the query \<open>hours\<close>.\<close>

definition stale_kb_world :: kb_world where
  "stale_kb_world =
     \<lparr>kb_entries = [],
      kb_cache = [searchCacheKey ''hours'' ''en'' 5 \<mapsto> ([stale_result], 1800000)],
      kb_redis_up = True, kb_db_up = True, kb_nlp = empty_nlp_world\<rparr>"

definition empty_kb_world :: kb_world where
  "empty_kb_world =
     \<lparr>kb_entries = [], kb_cache = Map.empty, kb_redis_up = True, kb_db_up = True,
      kb_nlp = empty_nlp_world\<rparr>"

definition example_search_env :: search_env where
  "example_search_env =
     \<lparr>semanticIntentOutcome = ReplyUnparseable, relevanceScores = None, search_clock = 1000\<rparr>"

section \<open>Verified properties\<close>

subsection \<open>Strings\<close>

lemma str_includes_sublist: "str_includes s k \<longleftrightarrow> sublist k s"
  by (induction s) (auto simp: sublist_Cons_right)

lemma some_iff: "some p xs \<longleftrightarrow> (\<exists>x \<in> set xs. p x)"
  by (induction xs) auto

subsection \<open>Ticket priority\<close>

text \<open>
  Claim C7. \<open>determinePriority\<close> lower-cases the text and scans the keyword lists of the
  language: it answers URGENT when an urgent keyword occurs in the text, otherwise HIGH
  when a high-priority keyword occurs, otherwise NORMAL. So the urgent list is looked at
  first. \<open>determinePriority("urgent: site is down", "en")\<close> is URGENT and
  \<open>determinePriority("just wondering", "en")\<close> is NORMAL.
\<close>

theorem determinePriority_scan:
  "determinePriority text language =
     (if \<exists>w \<in> set (urgentKeywords language). sublist w (toLowerCase text) then URGENT
      else if \<exists>w \<in> set (highPriorityKeywords language). sublist w (toLowerCase text) then HIGH
      else NORMAL)
   \<and> determinePriority ''urgent: site is down'' ''en'' = URGENT
   \<and> determinePriority ''just wondering'' ''en'' = NORMAL"
proof (intro conjI)
  show "determinePriority text language =
     (if \<exists>w \<in> set (urgentKeywords language). sublist w (toLowerCase text) then URGENT
      else if \<exists>w \<in> set (highPriorityKeywords language). sublist w (toLowerCase text) then HIGH
      else NORMAL)"
    by (simp add: determinePriority_def Let_def some_iff str_includes_sublist)
  show "determinePriority ''urgent: site is down'' ''en'' = URGENT" by code_simp
  show "determinePriority ''just wondering'' ''en'' = NORMAL" by code_simp
qed

text \<open>
  A text with both a high-priority and an urgent keyword is URGENT, and a language
  without a table of its own is scanned with the French lists.
\<close>

theorem determinePriority_scan_witness:
  "determinePriority ''there is a bug but it is also urgent'' ''en'' = URGENT
   \<and> determinePriority ''un bug'' ''de'' = HIGH"
proof -
  have a: "\<exists>w \<in> set (urgentKeywords ''en'').
             sublist w (toLowerCase ''there is a bug but it is also urgent'')"
    by (rule bexI[where x="''urgent''"])
       (simp_all add: urgentKeywords_def urgentKeywords_en_def
          str_includes_sublist[symmetric] toLowerCase_def toLowerCase_char_def)
  have b: "\<not> (\<exists>w \<in> set (urgentKeywords ''de''). sublist w (toLowerCase ''un bug''))"
    by (simp add: urgentKeywords_def urgentKeywords_fr_def
          str_includes_sublist[symmetric] toLowerCase_def toLowerCase_char_def)
  have c: "\<exists>w \<in> set (highPriorityKeywords ''de''). sublist w (toLowerCase ''un bug'')"
    by (rule bexI[where x="''bug''"])
       (simp_all add: highPriorityKeywords_def highPriorityKeywords_fr_def
          str_includes_sublist[symmetric] toLowerCase_def toLowerCase_char_def)
  from a b c show ?thesis
    using determinePriority_scan[of "''there is a bug but it is also urgent''" "''en''"]
          determinePriority_scan[of "''un bug''" "''de''"]
    by simp
qed

subsection \<open>Ticket status updates\<close>

lemma set_validStatuses:
  "set validStatuses = {''OPEN'', ''IN_PROGRESS'', ''WAITING_CUSTOMER'', ''RESOLVED'', ''CLOSED''}"
  unfolding validStatuses_def by auto

text \<open>
  Claim C6. \<open>updateTicketStatus\<close> with a status outside OPEN, IN_PROGRESS,
  WAITING_CUSTOMER, RESOLVED and CLOSED raises ValidationError and leaves the ticket table
  and the cache as they were. With RESOLVED or CLOSED, the stored ticket gets the new
  status and \<open>resolvedAt\<close> is the current time; with one of the other three valid
  statuses \<open>resolvedAt\<close> keeps its value.
\<close>

theorem updateTicketStatus_validates:
  "(newStatus \<notin> {''OPEN'', ''IN_PROGRESS'', ''WAITING_CUSTOMER'', ''RESOLVED'', ''CLOSED''} \<longrightarrow>
      updateTicketStatus w ticketId newStatus resolution agentId now1 now2 =
        (Inl (ValidationError (''Statut invalide: '' @ newStatus)), w))
   \<and> (newStatus \<in> {''RESOLVED'', ''CLOSED''} \<and> db_tickets w ticketId = Some t \<longrightarrow>
        (\<exists>t'. db_tickets (snd (updateTicketStatus w ticketId newStatus resolution agentId now1 now2))
                 ticketId = Some t'
              \<and> t_status t' = newStatus \<and> t_resolvedAt t' = Some now2))
   \<and> (newStatus \<in> {''OPEN'', ''IN_PROGRESS'', ''WAITING_CUSTOMER''} \<and> db_tickets w ticketId = Some t \<longrightarrow>
        (\<exists>t'. db_tickets (snd (updateTicketStatus w ticketId newStatus resolution agentId now1 now2))
                 ticketId = Some t'
              \<and> t_status t' = newStatus \<and> t_resolvedAt t' = t_resolvedAt t))"
proof (intro conjI impI)
  assume "newStatus \<notin> {''OPEN'', ''IN_PROGRESS'', ''WAITING_CUSTOMER'', ''RESOLVED'', ''CLOSED''}"
  then have "newStatus \<notin> set validStatuses"
    unfolding set_validStatuses .
  then show "updateTicketStatus w ticketId newStatus resolution agentId now1 now2 =
        (Inl (ValidationError (''Statut invalide: '' @ newStatus)), w)"
    by (simp add: updateTicketStatus_def)
next
  assume a: "newStatus \<in> {''RESOLVED'', ''CLOSED''} \<and> db_tickets w ticketId = Some t"
  then have m: "newStatus \<in> set validStatuses"
    unfolding set_validStatuses by auto
  from a m show "\<exists>t'. db_tickets (snd (updateTicketStatus w ticketId newStatus resolution agentId now1 now2))
                 ticketId = Some t'
              \<and> t_status t' = newStatus \<and> t_resolvedAt t' = Some now2"
    by (auto simp: updateTicketStatus_def Let_def)
next
  assume a: "newStatus \<in> {''OPEN'', ''IN_PROGRESS'', ''WAITING_CUSTOMER''} \<and> db_tickets w ticketId = Some t"
  then have m: "newStatus \<in> set validStatuses"
    unfolding set_validStatuses by auto
  from a m show "\<exists>t'. db_tickets (snd (updateTicketStatus w ticketId newStatus resolution agentId now1 now2))
                 ticketId = Some t'
              \<and> t_status t' = newStatus \<and> t_resolvedAt t' = t_resolvedAt t"
    by (auto simp: updateTicketStatus_def Let_def)
qed

text \<open>The status \<open>FOO\<close> is rejected; RESOLVED stamps the ticket and IN_PROGRESS does not.\<close>

theorem updateTicketStatus_validates_witness:
  "updateTicketStatus example_ticket_world ''t1'' ''FOO'' None None 5000 5001 =
     (Inl (ValidationError ''Statut invalide: FOO''), example_ticket_world)
   \<and> (\<exists>t'. db_tickets (snd (updateTicketStatus example_ticket_world ''t1'' ''RESOLVED'' None None 5000 5001)) ''t1'' = Some t'
         \<and> t_status t' = ''RESOLVED'' \<and> t_resolvedAt t' = Some 5001)
   \<and> (\<exists>t'. db_tickets (snd (updateTicketStatus example_ticket_world ''t1'' ''IN_PROGRESS'' None None 5000 5001)) ''t1'' = Some t'
         \<and> t_status t' = ''IN_PROGRESS'' \<and> t_resolvedAt t' = None)"
proof -
  have d: "db_tickets example_ticket_world ''t1'' = Some example_ticket"
    by (simp add: example_ticket_world_def)
  have r: "t_resolvedAt example_ticket = None" by (simp add: example_ticket_def)
  note T = updateTicketStatus_validates[where w=example_ticket_world and ticketId="''t1''"
      and resolution=None and agentId=None and ?now1.0=5000 and ?now2.0=5001 and t=example_ticket]
  show ?thesis
    using T[where newStatus="''FOO''"] T[where newStatus="''RESOLVED''"]
      T[where newStatus="''IN_PROGRESS''"] d r
    by simp
qed

subsection \<open>One active conversation per user\<close>


















subsection \<open>Intent analysis: errors and the keyword fallback\<close>

lemma hash_bye: "foldl hash_step 0 ''bye'' = 98030"
  by (simp add: hash_step_def)

lemma toString36_98030: "toString36 98030 = ''23n2''"
  by (simp add: toString36.simps digit36_def)

lemma hashText_bye: "hashText ''bye'' = ''23n2''"
  unfolding hashText_def hash_bye by (simp add: toString36_98030)

lemma firstKeywordIntent_None:
  "firstKeywordIntent lowerText table = None \<longleftrightarrow>
     \<not> (\<exists>(i, keywords) \<in> set table. \<exists>k \<in> set keywords. sublist k lowerText)"
  by (induction table) (auto simp: some_iff str_includes_sublist split: if_splits)

lemma firstKeywordIntent_Some:
  "firstKeywordIntent lowerText table = Some i \<Longrightarrow> i \<in> fst ` set table"
  by (induction table) (auto split: if_splits)

lemma analyzeIntent_error_iff:
  "(\<exists>e. fst (analyzeIntent w outcome text language now) = Inl e) \<longleftrightarrow>
     cache_get w (''nlp:intent:'' @ hashText text @ '':'' @ language) now = None
     \<and> (outcome = CallRejected (Some ''insufficient_quota'')
          \<or> outcome = CallRejected (Some ''rate_limit_exceeded''))"
  by (cases outcome)
     (auto simp: analyzeIntent_def analyzeIntent_catch_def Let_def split: option.splits)

lemma cache_get_empty: "cache_get empty_nlp_world key now = None"
  by (simp add: cache_get_def empty_nlp_world_def)

text \<open>
  Claim C2, as the code has it. \<open>analyzeIntent\<close> hands an error to its caller exactly
  when the cache has no live entry for the input and the request to the hosted model is
  rejected with the code \<open>insufficient_quota\<close> or \<open>rate_limit_exceeded\<close>: the \<open>catch\<close>
  block throws \<open>OpenAIError\<close> (503) for these two codes. On every other failure of the
  call and on a reply that does not parse it returns the result of the keyword fallback.
  The fallback has confidence 0.6 and an intent of the keyword table when a keyword of
  the table occurs in the lower-cased text, and the intent \<open>unknown\<close> with confidence 0.1
  when none does; it is a total function, so it raises nothing.
\<close>

theorem analyzeIntent_degrades:
  "((\<exists>e. fst (analyzeIntent w outcome text language now) = Inl e) \<longleftrightarrow>
      cache_get w (''nlp:intent:'' @ hashText text @ '':'' @ language) now = None
      \<and> (outcome = CallRejected (Some ''insufficient_quota'')
           \<or> outcome = CallRejected (Some ''rate_limit_exceeded'')))
   \<and> (cache_get w (''nlp:intent:'' @ hashText text @ '':'' @ language) now = None
        \<and> (outcome = ReplyUnparseable
             \<or> (\<exists>code. outcome = CallRejected code \<and> code \<noteq> Some ''insufficient_quota''
                    \<and> code \<noteq> Some ''rate_limit_exceeded'')) \<longrightarrow>
        fst (analyzeIntent w outcome text language now) =
          Inr (fallbackIntentAnalysis text language now))
   \<and> ((\<exists>(i, keywords) \<in> set keywordMap. \<exists>k \<in> set keywords. sublist k (toLowerCase text)) \<longrightarrow>
        confidence (fallbackIntentAnalysis text language now) = 6 / 10
        \<and> intent (fallbackIntentAnalysis text language now) \<in> fst ` set keywordMap)
   \<and> (\<not> (\<exists>(i, keywords) \<in> set keywordMap. \<exists>k \<in> set keywords. sublist k (toLowerCase text)) \<longrightarrow>
        confidence (fallbackIntentAnalysis text language now) = 1 / 10
        \<and> intent (fallbackIntentAnalysis text language now) = ''unknown'')"
proof (intro conjI impI)
  show "(\<exists>e. fst (analyzeIntent w outcome text language now) = Inl e) \<longleftrightarrow>
      cache_get w (''nlp:intent:'' @ hashText text @ '':'' @ language) now = None
      \<and> (outcome = CallRejected (Some ''insufficient_quota'')
           \<or> outcome = CallRejected (Some ''rate_limit_exceeded''))"
    by (rule analyzeIntent_error_iff)
next
  assume "cache_get w (''nlp:intent:'' @ hashText text @ '':'' @ language) now = None
        \<and> (outcome = ReplyUnparseable
             \<or> (\<exists>code. outcome = CallRejected code \<and> code \<noteq> Some ''insufficient_quota''
                    \<and> code \<noteq> Some ''rate_limit_exceeded''))"
  then show "fst (analyzeIntent w outcome text language now) =
          Inr (fallbackIntentAnalysis text language now)"
    by (auto simp: analyzeIntent_def analyzeIntent_catch_def Let_def)
next
  assume a: "\<exists>(i, keywords) \<in> set keywordMap. \<exists>k \<in> set keywords. sublist k (toLowerCase text)"
  then obtain i where i: "firstKeywordIntent (toLowerCase text) keywordMap = Some i"
    using firstKeywordIntent_None[of "toLowerCase text" keywordMap]
    by (cases "firstKeywordIntent (toLowerCase text) keywordMap") auto
  then show "confidence (fallbackIntentAnalysis text language now) = 6 / 10"
    by (simp add: fallbackIntentAnalysis_def)
  from i firstKeywordIntent_Some[OF i]
  show "intent (fallbackIntentAnalysis text language now) \<in> fst ` set keywordMap"
    by (simp add: fallbackIntentAnalysis_def)
next
  assume a: "\<not> (\<exists>(i, keywords) \<in> set keywordMap. \<exists>k \<in> set keywords. sublist k (toLowerCase text))"
  then have n: "firstKeywordIntent (toLowerCase text) keywordMap = None"
    using firstKeywordIntent_None[of "toLowerCase text" keywordMap] by simp
  then show "confidence (fallbackIntentAnalysis text language now) = 1 / 10"
    by (simp add: fallbackIntentAnalysis_def)
  from n show "intent (fallbackIntentAnalysis text language now) = ''unknown''"
    by (simp add: fallbackIntentAnalysis_def)
qed

text \<open>
  The claim as stated, that a quota error also ends in the fallback, fails: with an empty
  cache and a call rejected with \<open>insufficient_quota\<close>, the caller gets the error.
\<close>

theorem analyzeIntent_quota_counterexample:
  "fst (analyzeIntent empty_nlp_world (CallRejected (Some ''insufficient_quota'')) ''hello'' ''en'' 0) =
     Inl (OpenAIError ''Service IA temporairement indisponible'' 503)"
  by (simp add: analyzeIntent_def analyzeIntent_catch_def Let_def cache_get_empty)

lemma hello_fallback: "firstKeywordIntent (toLowerCase ''Hello there'') keywordMap = Some ''greeting''"
  by code_simp

lemma xyz_fallback: "firstKeywordIntent (toLowerCase ''xyz'') keywordMap = None"
  by code_simp

theorem analyzeIntent_degrades_witness:
  "fst (analyzeIntent empty_nlp_world ReplyUnparseable ''Hello there'' ''en'' 7) =
     Inr (fallbackIntentAnalysis ''Hello there'' ''en'' 7)
   \<and> confidence (fallbackIntentAnalysis ''Hello there'' ''en'' 7) = 6 / 10
   \<and> intent (fallbackIntentAnalysis ''Hello there'' ''en'' 7) = ''greeting''
   \<and> confidence (fallbackIntentAnalysis ''xyz'' ''en'' 7) = 1 / 10
   \<and> intent (fallbackIntentAnalysis ''xyz'' ''en'' 7) = ''unknown''
   \<and> (\<exists>e. fst (analyzeIntent empty_nlp_world (CallRejected (Some ''rate_limit_exceeded''))
               ''Hello there'' ''en'' 7) = Inl e)"
proof -
  have k1: "\<exists>(i, keywords) \<in> set keywordMap. \<exists>k \<in> set keywords. sublist k (toLowerCase ''Hello there'')"
    using firstKeywordIntent_None[of "toLowerCase ''Hello there''" keywordMap] hello_fallback by simp
  have k2: "\<not> (\<exists>(i, keywords) \<in> set keywordMap. \<exists>k \<in> set keywords. sublist k (toLowerCase ''xyz''))"
    using firstKeywordIntent_None[of "toLowerCase ''xyz''" keywordMap] xyz_fallback by simp
  have g: "intent (fallbackIntentAnalysis ''Hello there'' ''en'' 7) = ''greeting''"
    using hello_fallback by (simp add: fallbackIntentAnalysis_def)
  note T = analyzeIntent_degrades[where w=empty_nlp_world and language="''en''" and now=7]
  from T[where ?text="''Hello there''" and outcome=ReplyUnparseable]
       T[where ?text="''xyz''" and outcome=ReplyUnparseable]
       T[where ?text="''Hello there''" and outcome="CallRejected (Some ''rate_limit_exceeded'')"]
       k1 k2 g cache_get_empty
  show ?thesis by simp
qed

subsection \<open>Intent analysis: the cache\<close>

text \<open>
  Claim C5, as the code has it. When the cache server is up, the cache has no live entry
  for \<open>(text, language)\<close> and the hosted model's reply to the first call parses, the
  first call stores its normalized result, and a second call with the same input less
  than \<open>cacheTTL\<close> seconds later returns that same result whatever the model would
  answer; the two calls send one request to the model.
\<close>

theorem analyzeIntent_cache_hit:
  "nlp_redis_up w
   \<and> cache_get w (''nlp:intent:'' @ hashText text @ '':'' @ language) t1 = None
   \<and> t1 \<le> t2 \<and> t2 < t1 + cacheTTL * 1000 \<longrightarrow>
     fst (analyzeIntent w (ReplyParsed result) text language t1) =
       Inr (normalizeIntentResult result text language t1)
   \<and> fst (analyzeIntent (snd (analyzeIntent w (ReplyParsed result) text language t1))
            outcome2 text language t2) =
       fst (analyzeIntent w (ReplyParsed result) text language t1)
   \<and> model_calls (snd (analyzeIntent (snd (analyzeIntent w (ReplyParsed result) text language t1))
            outcome2 text language t2)) = model_calls w + 1"
proof (intro impI)
  assume a: "nlp_redis_up w
   \<and> cache_get w (''nlp:intent:'' @ hashText text @ '':'' @ language) t1 = None
   \<and> t1 \<le> t2 \<and> t2 < t1 + cacheTTL * 1000"
  let ?key = "''nlp:intent:'' @ hashText text @ '':'' @ language"
  let ?r = "normalizeIntentResult result text language t1"
  let ?w2 = "w\<lparr>model_calls := Suc (model_calls w),
                 intent_cache := (intent_cache w)(?key \<mapsto> (?r, t1 + cacheTTL * 1000))\<rparr>"
  from a have first: "analyzeIntent w (ReplyParsed result) text language t1 = (Inr ?r, ?w2)"
    by (simp add: analyzeIntent_def Let_def cache_set_def)
  from a have hit: "cache_get ?w2 ?key t2 = Some ?r"
    by (simp add: cache_get_def)
  then have second: "analyzeIntent ?w2 outcome2 text language t2 = (Inr ?r, ?w2)"
    by (simp add: analyzeIntent_def Let_def)
  from first second
  show "fst (analyzeIntent w (ReplyParsed result) text language t1) =
       Inr (normalizeIntentResult result text language t1)
   \<and> fst (analyzeIntent (snd (analyzeIntent w (ReplyParsed result) text language t1))
            outcome2 text language t2) =
       fst (analyzeIntent w (ReplyParsed result) text language t1)
   \<and> model_calls (snd (analyzeIntent (snd (analyzeIntent w (ReplyParsed result) text language t1))
            outcome2 text language t2)) = model_calls w + 1"
    by simp
qed

theorem analyzeIntent_cache_hit_witness:
  "fst (analyzeIntent (snd (analyzeIntent empty_nlp_world (ReplyParsed goodbye_reply) ''bye'' ''en'' 0))
          ReplyUnparseable ''bye'' ''en'' 1799999) =
     Inr (normalizeIntentResult goodbye_reply ''bye'' ''en'' 0)
   \<and> model_calls (snd (analyzeIntent
          (snd (analyzeIntent empty_nlp_world (ReplyParsed goodbye_reply) ''bye'' ''en'' 0))
          ReplyUnparseable ''bye'' ''en'' 1799999)) = 1"
proof -
  have up: "nlp_redis_up empty_nlp_world" and c: "model_calls empty_nlp_world = 0"
    by (simp_all add: empty_nlp_world_def)
  have t: "(0::int) \<le> 1799999 \<and> (1799999::int) < 0 + cacheTTL * 1000"
    by (simp add: cacheTTL_def)
  from analyzeIntent_cache_hit[where w=empty_nlp_world and ?text="''bye''" and language="''en''"
      and ?t1.0=0 and ?t2.0=1799999 and result=goodbye_reply and ?outcome2.0=ReplyUnparseable]
    up c t cache_get_empty
  show ?thesis by simp
qed

text \<open>
  The claim as stated, for every pair of calls, fails when the first reply does not
  parse: the fallback result is returned without being stored, the second call asks the
  model again (two requests) and returns a different result.
\<close>

theorem analyzeIntent_uncached_fallback_counterexample:
  "model_calls (snd (analyzeIntent
       (snd (analyzeIntent empty_nlp_world ReplyUnparseable ''bye'' ''en'' 0))
       (ReplyParsed goodbye_reply) ''bye'' ''en'' 1)) = 2
   \<and> fst (analyzeIntent
       (snd (analyzeIntent empty_nlp_world ReplyUnparseable ''bye'' ''en'' 0))
       (ReplyParsed goodbye_reply) ''bye'' ''en'' 1)
     \<noteq> fst (analyzeIntent empty_nlp_world ReplyUnparseable ''bye'' ''en'' 0)"
proof -
  let ?w1 = "empty_nlp_world\<lparr>model_calls := Suc 0\<rparr>"
  have c0: "model_calls empty_nlp_world = 0" by (simp add: empty_nlp_world_def)
  have first: "analyzeIntent empty_nlp_world ReplyUnparseable ''bye'' ''en'' 0 =
      (Inr (fallbackIntentAnalysis ''bye'' ''en'' 0), ?w1)"
    by (simp add: analyzeIntent_def Let_def cache_get_empty analyzeIntent_catch_def c0)
  have miss: "cache_get ?w1 key 1 = None" for key
    by (simp add: cache_get_def empty_nlp_world_def)
  have up1: "nlp_redis_up empty_nlp_world" by (simp add: empty_nlp_world_def)
  have second: "fst (analyzeIntent ?w1 (ReplyParsed goodbye_reply) ''bye'' ''en'' 1) =
        Inr (normalizeIntentResult goodbye_reply ''bye'' ''en'' 1)
      \<and> model_calls (snd (analyzeIntent ?w1 (ReplyParsed goodbye_reply) ''bye'' ''en'' 1)) = 2"
    by (simp add: analyzeIntent_def Let_def miss cache_set_def up1)
  have differ: "fallback (fallbackIntentAnalysis ''bye'' ''en'' 0)
      \<noteq> fallback (normalizeIntentResult goodbye_reply ''bye'' ''en'' 1)"
    by (simp add: fallbackIntentAnalysis_def normalizeIntentResult_def Let_def split: option.splits)
  then have "fallbackIntentAnalysis ''bye'' ''en'' 0 \<noteq> normalizeIntentResult goodbye_reply ''bye'' ''en'' 1"
    by auto
  with first second show ?thesis by simp
qed

subsection \<open>Lower-casing\<close>

lemma of_bool_le1: "(of_bool b :: nat) \<le> 1" by simp

lemma lowered_fixed:
  "toLowerCase_char (Char b0 b1 b2 b3 b4 True b6 b7) = Char b0 b1 b2 b3 b4 True b6 b7"
proof -
  have n: "(of_char (Char b0 b1 b2 b3 b4 True b6 b7) :: nat) =
      of_bool b0 + 2 * of_bool b1 + 4 * of_bool b2 + 8 * of_bool b3 + 16 * of_bool b4 + 32
        + 64 * of_bool b6 + 128 * of_bool b7"
    by simp
  have out: "\<not> ((65 \<le> n \<and> n \<le> 90) \<or> (192 \<le> n \<and> n \<le> 222 \<and> n \<noteq> 215))"
    if "n = of_bool b0 + 2 * of_bool b1 + 4 * of_bool b2 + 8 * of_bool b3 + 16 * of_bool b4 + 32
        + 64 * of_bool b6 + 128 * of_bool b7" for n :: nat
    using that of_bool_le1[of b0] of_bool_le1[of b1] of_bool_le1[of b2] of_bool_le1[of b3] of_bool_le1[of b4]
    by (cases b6; cases b7; simp; arith)
  show ?thesis
    unfolding toLowerCase_char_def Let_def using out[OF n] by (simp del: of_char_Char)
qed

lemma toLowerCase_char_idem: "toLowerCase_char (toLowerCase_char c) = toLowerCase_char c"
proof (cases c)
  case (Char b0 b1 b2 b3 b4 b5 b6 b7)
  show ?thesis
  proof (cases "toLowerCase_char c = c")
    case True
    then show ?thesis by simp
  next
    case False
    then have "toLowerCase_char c = Char b0 b1 b2 b3 b4 True b6 b7"
      unfolding Char by (auto simp add: toLowerCase_char_def Let_def simp del: of_char_Char split: if_splits)
    then show ?thesis by (simp add: lowered_fixed)
  qed
qed


lemma toLowerCase_idem: "toLowerCase (toLowerCase s) = toLowerCase s"
  by (simp add: toLowerCase_def toLowerCase_char_idem)

lemma sublist_of_lowered:
  assumes "sublist k (toLowerCase s)"
  shows "toLowerCase k = k"
proof -
  from assms obtain ps ss where eq: "toLowerCase s = ps @ k @ ss"
    by (auto simp: sublist_def)
  then have "toLowerCase (ps @ k @ ss) = toLowerCase (toLowerCase s)" by simp
  also have "\<dots> = toLowerCase s" by (rule toLowerCase_idem)
  also have "\<dots> = ps @ k @ ss" by (rule eq)
  finally have "map toLowerCase_char ps @ map toLowerCase_char k @ map toLowerCase_char ss = ps @ k @ ss"
    by (simp add: toLowerCase_def)
  then show ?thesis by (simp add: toLowerCase_def)
qed

subsection \<open>The hand-off keywords come before the classifier\<close>

lemma switchLanguage_keeps:
  "st_nlp (switchLanguage cfg env st) = st_nlp st"
  "st_classifier_calls (switchLanguage cfg env st) = st_classifier_calls st"
  "st_conversations (switchLanguage cfg env st) = st_conversations st"
  "st_session (switchLanguage cfg env st) = st_session st"
  by (simp_all add: switchLanguage_def split: option.splits)

lemma shouldTransferToHuman_iff:
  "shouldTransferToHuman cfg text language \<longleftrightarrow>
     (\<exists>k \<in> set (handoffKeywords cfg). sublist (toLowerCase k) (toLowerCase text))"
  by (simp add: shouldTransferToHuman_def Let_def some_iff str_includes_sublist)

text \<open>
  Claim C4. When the lower-cased text of an inbound text message contains a configured
  hand-off keyword, \<open>processTextMessage\<close> goes to the hand-off responder:
  \<open>analyzeIntent\<close> is not called for the message (the call counter and the world of the
  intent analysis, with its count of model requests, are as before), the session context
  gets \<open>pendingHandoff = true\<close>, the text as the reason and the clock reading as the
  timestamp, and the localized message \<open>handoff.initiated\<close> is returned. (A keyword that
  occurs in a lower-cased text is its own lower-casing, so the keyword the source
  lower-cases before the test is the configured one.)
\<close>

theorem handoff_short_circuit:
  "k \<in> set (handoffKeywords cfg) \<and> sublist k (toLowerCase text) \<longrightarrow>
     fst (processTextMessage cfg others env st text) =
       Inr (TextResponse (getLocalizedMessage (messages cfg) (defaultLanguage cfg)
              ''handoff.initiated'' (user_language (st_user (switchLanguage cfg env st)))))
   \<and> st_classifier_calls (snd (processTextMessage cfg others env st text)) = st_classifier_calls st
   \<and> st_nlp (snd (processTextMessage cfg others env st text)) = st_nlp st
   \<and> pendingHandoff (session_context (st_session (snd (processTextMessage cfg others env st text))))
        = Some True
   \<and> handoffReason (session_context (st_session (snd (processTextMessage cfg others env st text))))
        = Some text
   \<and> handoffTimestamp (session_context (st_session (snd (processTextMessage cfg others env st text))))
        = Some (clock env)"
proof (intro impI)
  assume a: "k \<in> set (handoffKeywords cfg) \<and> sublist k (toLowerCase text)"
  then have lk: "toLowerCase k = k" by (intro sublist_of_lowered[of k "text"]) simp
  have t: "shouldTransferToHuman cfg text language" for language
    using a lk unfolding shouldTransferToHuman_iff by (intro bexI[of _ k]) simp_all
  let ?st1 = "switchLanguage cfg env st"
  have p: "processTextMessage cfg others env st text =
      (Inr (fst (initiateHumanHandoff cfg ?st1 text (clock env))),
       snd (initiateHumanHandoff cfg ?st1 text (clock env)))"
    by (simp add: processTextMessage_def Let_def t split: prod.splits)
  show "fst (processTextMessage cfg others env st text) =
       Inr (TextResponse (getLocalizedMessage (messages cfg) (defaultLanguage cfg)
              ''handoff.initiated'' (user_language (st_user (switchLanguage cfg env st)))))
   \<and> st_classifier_calls (snd (processTextMessage cfg others env st text)) = st_classifier_calls st
   \<and> st_nlp (snd (processTextMessage cfg others env st text)) = st_nlp st
   \<and> pendingHandoff (session_context (st_session (snd (processTextMessage cfg others env st text))))
        = Some True
   \<and> handoffReason (session_context (st_session (snd (processTextMessage cfg others env st text))))
        = Some text
   \<and> handoffTimestamp (session_context (st_session (snd (processTextMessage cfg others env st text))))
        = Some (clock env)"
    unfolding p by (simp add: initiateHumanHandoff_def Let_def switchLanguage_keeps)
qed

lemma agent_keyword: "''agent'' \<in> set (handoffKeywords example_config)"
  by (simp add: handoffKeywords_def example_config_def)

lemma agent_in_text: "sublist ''agent'' (toLowerCase ''I want an AGENT now'')"
  unfolding str_includes_sublist[symmetric]
  by (simp add: toLowerCase_def toLowerCase_char_def)

theorem handoff_short_circuit_witness:
  "fst (processTextMessage example_config (\<lambda>r s t. (TextResponse [], s)) example_env example_state
          ''I want an AGENT now'') =
     Inr (TextResponse (''I'' @ [CHR 0x27] @ ''m connecting you with a human agent. Please wait...''))
   \<and> st_classifier_calls (snd (processTextMessage example_config (\<lambda>r s t. (TextResponse [], s))
          example_env example_state ''I want an AGENT now'')) = 0
   \<and> pendingHandoff (session_context (st_session (snd (processTextMessage example_config
          (\<lambda>r s t. (TextResponse [], s)) example_env example_state ''I want an AGENT now''))))
        = Some True"
proof -
  have l: "user_language (st_user (switchLanguage example_config example_env example_state)) = ''en''"
    by (simp add: switchLanguage_def example_env_def example_state_def)
  have m: "getLocalizedMessage (messages example_config) (defaultLanguage example_config)
             ''handoff.initiated'' ''en'' =
           ''I'' @ [CHR 0x27] @ ''m connecting you with a human agent. Please wait...''"
    by (simp add: getLocalizedMessage_def catalogue_entry_def example_config_def example_messages_def)
  have c: "st_classifier_calls example_state = 0" by (simp add: example_state_def)
  from handoff_short_circuit[where k="''agent''" and cfg=example_config
      and ?text="''I want an AGENT now''" and others="\<lambda>r s t. (TextResponse [], s)"
      and env=example_env and st=example_state] agent_keyword agent_in_text l m c
  show ?thesis by simp
qed

subsection \<open>The goodbye intent\<close>

lemma goodbye_path:
  assumes "\<not> shouldTransferToHuman cfg text (user_language (st_user (switchLanguage cfg env st)))"
    and "fst (analyzeIntent (st_nlp st) (intentOutcome env) text
            (user_language (st_user (switchLanguage cfg env st))) (clock env)) = Inr r"
    and "intent r = ''goodbye''" and "confidenceThreshold cfg \<le> confidence r"
  shows "\<exists>st2. st_session st2 = st_session st \<and> st_conversations st2 = st_conversations st
           \<and> st_user st2 = st_user (switchLanguage cfg env st)
           \<and> processTextMessage cfg others env st text =
                (Inr (fst (handleGoodbye cfg st2 (clock env))), snd (handleGoodbye cfg st2 (clock env)))"
proof -
  let ?st1 = "switchLanguage cfg env st"
  let ?lang = "user_language (st_user ?st1)"
  obtain nlp' where an: "analyzeIntent (st_nlp st) (intentOutcome env) text ?lang (clock env) = (Inr r, nlp')"
    using assms(2) by (cases "analyzeIntent (st_nlp st) (intentOutcome env) text ?lang (clock env)") auto
  let ?st2 = "?st1\<lparr>st_nlp := nlp', st_classifier_calls := Suc (st_classifier_calls ?st1)\<rparr>"
  have h: "handleIntent cfg others r ?st2 text (clock env) = handleGoodbye cfg ?st2 (clock env)"
    using assms(3) by (simp add: handleIntent_def)
  have p: "processTextMessage cfg others env st text =
      (Inr (fst (handleGoodbye cfg ?st2 (clock env))), snd (handleGoodbye cfg ?st2 (clock env)))"
    using assms an h by (simp add: processTextMessage_def Let_def switchLanguage_keeps split: prod.splits)
  show ?thesis
    by (rule exI[of _ ?st2]) (simp add: p switchLanguage_keeps)
qed

text \<open>
  Claim C3, as the code has it. When a text message without hand-off keyword is
  classified with the intent \<open>goodbye\<close> and a confidence at or above the threshold,
  handling it sets the status of the session object to ENDED and \<open>endedAt\<close> in the session
  context to the clock reading, and returns the localized message \<open>goodbye.message\<close>.
  The conversation table is not written: every conversation record is as before.
\<close>

theorem goodbye_ends_session:
  "\<not> shouldTransferToHuman cfg text (user_language (st_user (switchLanguage cfg env st)))
   \<and> fst (analyzeIntent (st_nlp st) (intentOutcome env) text
            (user_language (st_user (switchLanguage cfg env st))) (clock env)) = Inr r
   \<and> intent r = ''goodbye'' \<and> confidenceThreshold cfg \<le> confidence r \<longrightarrow>
     fst (processTextMessage cfg others env st text) =
       Inr (TextResponse (getLocalizedMessage (messages cfg) (defaultLanguage cfg)
              ''goodbye.message'' (user_language (st_user (switchLanguage cfg env st)))))
   \<and> session_status (st_session (snd (processTextMessage cfg others env st text))) = Some ''ENDED''
   \<and> ctx_endedAt (session_context (st_session (snd (processTextMessage cfg others env st text))))
        = Some (clock env)
   \<and> st_conversations (snd (processTextMessage cfg others env st text)) = st_conversations st"
proof (intro impI)
  assume a: "\<not> shouldTransferToHuman cfg text (user_language (st_user (switchLanguage cfg env st)))
   \<and> fst (analyzeIntent (st_nlp st) (intentOutcome env) text
            (user_language (st_user (switchLanguage cfg env st))) (clock env)) = Inr r
   \<and> intent r = ''goodbye'' \<and> confidenceThreshold cfg \<le> confidence r"
  then obtain st2 where s: "st_session st2 = st_session st" "st_conversations st2 = st_conversations st"
      "st_user st2 = st_user (switchLanguage cfg env st)"
      "processTextMessage cfg others env st text =
         (Inr (fst (handleGoodbye cfg st2 (clock env))), snd (handleGoodbye cfg st2 (clock env)))"
    using goodbye_path[of cfg "text" env st r others] by auto
  show "fst (processTextMessage cfg others env st text) =
       Inr (TextResponse (getLocalizedMessage (messages cfg) (defaultLanguage cfg)
              ''goodbye.message'' (user_language (st_user (switchLanguage cfg env st)))))
   \<and> session_status (st_session (snd (processTextMessage cfg others env st text))) = Some ''ENDED''
   \<and> ctx_endedAt (session_context (st_session (snd (processTextMessage cfg others env st text))))
        = Some (clock env)
   \<and> st_conversations (snd (processTextMessage cfg others env st text)) = st_conversations st"
    unfolding s(4) by (simp add: handleGoodbye_def Let_def s(1,2,3))
qed

lemma example_no_switch: "switchLanguage example_config example_env example_state = example_state"
  by (simp add: switchLanguage_def example_env_def)

lemma example_language: "user_language (st_user example_state) = ''en''"
  by (simp add: example_state_def)

lemma bye_no_handoff: "\<not> shouldTransferToHuman example_config ''bye'' ''en''"
  by (simp add: shouldTransferToHuman_def handoffKeywords_def example_config_def Let_def
        toLowerCase_def toLowerCase_char_def)

lemma bye_classified:
  "fst (analyzeIntent (st_nlp example_state) (intentOutcome example_env) ''bye'' ''en''
          (clock example_env)) =
     Inr (normalizeIntentResult goodbye_reply ''bye'' ''en'' 5000)"
proof -
  have n: "st_nlp example_state = empty_nlp_world" by (simp add: example_state_def)
  have o: "intentOutcome example_env = ReplyParsed goodbye_reply" "clock example_env = 5000"
    by (simp_all add: example_env_def)
  have up: "nlp_redis_up empty_nlp_world" by (simp add: empty_nlp_world_def)
  show ?thesis
    by (simp add: n o analyzeIntent_def Let_def cache_get_empty cache_set_def up)
qed

lemma bye_result:
  "intent (normalizeIntentResult goodbye_reply ''bye'' ''en'' 5000) = ''goodbye''"
  "confidenceThreshold example_config \<le> confidence (normalizeIntentResult goodbye_reply ''bye'' ''en'' 5000)"
  by (simp_all add: normalizeIntentResult_def goodbye_reply_def supportedIntents_def example_config_def)

lemma goodbye_message_en:
  "getLocalizedMessage (messages example_config) (defaultLanguage example_config)
     ''goodbye.message'' ''en'' =
   ''Thank you for using our service. Feel free to come back if you have any other questions. Have a great day!''"
  by (simp add: getLocalizedMessage_def catalogue_entry_def example_config_def example_messages_def)

theorem goodbye_ends_session_witness:
  "fst (processTextMessage example_config (\<lambda>r s t. (TextResponse [], s)) example_env example_state ''bye'') =
     Inr (TextResponse ''Thank you for using our service. Feel free to come back if you have any other questions. Have a great day!'')
   \<and> session_status (st_session (snd (processTextMessage example_config
         (\<lambda>r s t. (TextResponse [], s)) example_env example_state ''bye''))) = Some ''ENDED''
   \<and> ctx_endedAt (session_context (st_session (snd (processTextMessage example_config
         (\<lambda>r s t. (TextResponse [], s)) example_env example_state ''bye'')))) = Some 5000"
proof -
  have c: "clock example_env = 5000" by (simp add: example_env_def)
  from goodbye_ends_session[where cfg=example_config and ?text="''bye''" and env=example_env
      and st=example_state and others="\<lambda>r s t. (TextResponse [], s)"
      and r="normalizeIntentResult goodbye_reply ''bye'' ''en'' 5000"]
    example_no_switch example_language bye_no_handoff bye_classified bye_result goodbye_message_en c
  show ?thesis by simp
qed

text \<open>
  The claim as stated, that the Conversation record of the user is marked ENDED with its
  end timestamp, fails: after the goodbye message is returned, the user's conversation
  record is still ACTIVE and has no end timestamp.
\<close>

theorem goodbye_conversation_counterexample:
  "fst (processTextMessage example_config (\<lambda>r s t. (TextResponse [], s)) example_env example_state ''bye'') =
     Inr (TextResponse ''Thank you for using our service. Feel free to come back if you have any other questions. Have a great day!'')
   \<and> st_conversations (snd (processTextMessage example_config
         (\<lambda>r s t. (TextResponse [], s)) example_env example_state ''bye'')) = [example_conversation]
   \<and> conv_userId example_conversation = user_id (st_user example_state)
   \<and> conv_status example_conversation = ACTIVE
   \<and> endedAt example_conversation = None"
proof -
  obtain st2 where s: "st_session st2 = st_session example_state"
      "st_conversations st2 = st_conversations example_state"
      "st_user st2 = st_user (switchLanguage example_config example_env example_state)"
      "processTextMessage example_config (\<lambda>r s t. (TextResponse [], s)) example_env example_state ''bye'' =
         (Inr (fst (handleGoodbye example_config st2 (clock example_env))),
          snd (handleGoodbye example_config st2 (clock example_env)))"
    using goodbye_path[of example_config "''bye''" example_env example_state
        "normalizeIntentResult goodbye_reply ''bye'' ''en'' 5000" "\<lambda>r s t. (TextResponse [], s)"]
      example_no_switch example_language bye_no_handoff bye_classified bye_result
    by auto
  have u: "st_conversations example_state = [example_conversation]"
       "user_id (st_user example_state) = ''u1''"
    by (simp_all add: example_state_def)
  have e: "conv_userId example_conversation = ''u1''" "conv_status example_conversation = ACTIVE"
       "endedAt example_conversation = None"
    by (simp_all add: example_conversation_def)
  show ?thesis
    unfolding s(4)
    by (simp add: handleGoodbye_def Let_def s(1,2,3) u e example_no_switch example_language
          goodbye_message_en)
qed

subsection \<open>Keyword confidence\<close>

lemma keywordScore_nonneg: "0 \<le> keywordScore query queryWords entry"
  by (simp add: keywordScore_def Let_def)

lemma example_score: "keywordScore ''reset password'' [''reset'', ''password''] example_entry = 26 / 5"
  by (simp add: keywordScore_def Let_def example_entry_def toLowerCase_def toLowerCase_char_def)

text \<open>
  Claim C10. For every query, list of query words and entry, \<open>calculateKeywordConfidence\<close>
  is at least 0 and at most 1. The weighted score itself (2 for the query occurring in the
  question, 1 for each query word matching a keyword, 0.5 for each query word matching a
  word of the question, 0.2 for a usage count above 10) can be greater than the
  denominator, the number of query words plus 2: it is 5.2 against 4 for the entry of the
  example, and the confidence is then capped at 1.
\<close>

theorem calculateKeywordConfidence_bounds:
  "0 \<le> calculateKeywordConfidence query queryWords entry
   \<and> calculateKeywordConfidence query queryWords entry \<le> 1
   \<and> (\<exists>q ws e. of_nat (length ws + 2) < keywordScore q ws e
          \<and> calculateKeywordConfidence q ws e = 1)"
proof (intro conjI)
  have "0 \<le> keywordScore query queryWords entry / of_nat (length queryWords + 2)"
    using keywordScore_nonneg[of query queryWords entry] by simp
  then show "0 \<le> calculateKeywordConfidence query queryWords entry"
    by (simp add: calculateKeywordConfidence_def Let_def)
  show "calculateKeywordConfidence query queryWords entry \<le> 1"
    by (simp add: calculateKeywordConfidence_def Let_def)
  have "of_nat (length [''reset'', ''password''] + 2)
          < keywordScore ''reset password'' [''reset'', ''password''] example_entry
        \<and> calculateKeywordConfidence ''reset password'' [''reset'', ''password''] example_entry = 1"
    by (simp add: calculateKeywordConfidence_def Let_def example_score)
  then show "\<exists>q ws e. of_nat (length ws + 2) < keywordScore q ws e
          \<and> calculateKeywordConfidence q ws e = 1"
    by blast
qed

theorem calculateKeywordConfidence_bounds_witness:
  "0 \<le> calculateKeywordConfidence ''reset password'' [''reset'', ''password''] example_entry
   \<and> calculateKeywordConfidence ''reset password'' [''reset'', ''password''] example_entry \<le> 1
   \<and> keywordScore ''reset password'' [''reset'', ''password''] example_entry = 26 / 5"
  using calculateKeywordConfidence_bounds[of "''reset password''" "[''reset'', ''password'']" example_entry]
    example_score
  by simp

subsection \<open>Searching a knowledge base without active entries\<close>

lemma findMany_none_active:
  assumes "\<forall>e \<in> set (kb_entries w). \<not> (kb_language e = language \<and> isActive e)"
    and "findMany w wh n = Some es"
    and "\<And>e. wh e \<Longrightarrow> kb_language e = language \<and> isActive e"
  shows "es = []"
proof -
  from assms(1,3) have "filter wh (kb_entries w) = []"
    by (auto simp: filter_empty_conv)
  with assms(2) show ?thesis by (simp add: findMany_def split: if_splits)
qed

lemma searchByKeywords_none_active:
  assumes "\<forall>e \<in> set (kb_entries w). \<not> (kb_language e = language \<and> isActive e)"
  shows "searchByKeywords w query language limit = []"
  unfolding searchByKeywords_def Let_def
  by (auto split: option.splits dest!: findMany_none_active[OF assms])

lemma searchSemantic_none_active:
  assumes "\<forall>e \<in> set (kb_entries w). \<not> (kb_language e = language \<and> isActive e)"
  shows "fst (searchSemantic w env query language limit) = []"
proof -
  obtain res nlp' where an:
    "analyzeIntent (kb_nlp w) (semanticIntentOutcome env) query language (search_clock env) = (res, nlp')"
    by (cases "analyzeIntent (kb_nlp w) (semanticIntentOutcome env) query language (search_clock env)")
  let ?w1 = "w\<lparr>kb_nlp := nlp'\<rparr>"
  from assms have n: "\<forall>e \<in> set (kb_entries ?w1). \<not> (kb_language e = language \<and> isActive e)"
    by simp
  show ?thesis
    unfolding searchSemantic_def Let_def an
    by (cases res) (auto split: option.splits dest!: findMany_none_active[OF n])
qed

lemma search_never_raises: "\<exists>r. fst (search w env query language limit) = Inr r"
  by (cases "search_try w env query language limit";
      cases "fst (search_try w env query language limit)")
     (auto simp: search_def)

text \<open>
  Claim C9, as the code has it. \<open>search\<close> never raises: every error of its body is
  answered with \<open>null\<close>. When the table has no active entry in the requested language and
  the cache holds no live result list for the query, or an empty one, both tiers find
  nothing and the answer is \<open>null\<close>, whatever the query, the hosted model, the database
  and the cache server do.
\<close>

theorem search_no_active_entries:
  "(\<exists>r. fst (search w env query language limit) = Inr r)
   \<and> ((\<forall>e \<in> set (kb_entries w). \<not> (kb_language e = language \<and> isActive e))
       \<and> kb_cache_get w (searchCacheKey (toLowerCase (trim query)) language limit) (search_clock env)
            \<in> {None, Some []} \<longrightarrow>
       fst (search w env query language limit) = Inr None)"
proof (intro conjI impI)
  show "\<exists>r. fst (search w env query language limit) = Inr r"
    by (rule search_never_raises)
next
  assume a: "(\<forall>e \<in> set (kb_entries w). \<not> (kb_language e = language \<and> isActive e))
       \<and> kb_cache_get w (searchCacheKey (toLowerCase (trim query)) language limit) (search_clock env)
            \<in> {None, Some []}"
  let ?q = "toLowerCase (trim query)"
  from a have kw: "searchByKeywords w ?q language limit = []"
    by (simp add: searchByKeywords_none_active)
  from a have sem: "fst (searchSemantic w env ?q language limit) = []"
    by (simp add: searchSemantic_none_active)
  obtain sr w1 where s: "searchSemantic w env ?q language limit = (sr, w1)"
    by (cases "searchSemantic w env ?q language limit")
  with sem have sr: "sr = []" by simp
  have "fst (search_try w env query language limit) = Inr None
      \<or> (\<exists>e. fst (search_try w env query language limit) = Inl e)"
    using a by (auto simp: search_try_def Let_def kw s sr firstOrNull_def split: option.splits)
  then show "fst (search w env query language limit) = Inr None"
    by (cases "search_try w env query language limit") (auto simp: search_def)
qed

text \<open>
  The claim as stated, for every store without active entries in the language, fails
  when the cache still holds a result list for the query (lists are cached for 30
  minutes): the cache is read first, and the first cached result is returned although
  the table is empty.
\<close>

lemma hours_normalized: "toLowerCase ''hours'' = ''hours''" "trim ''hours'' = ''hours''"
  by (simp_all add: trim_def isWhiteSpace_def toLowerCase_def toLowerCase_char_def)

theorem search_stale_cache_counterexample:
  "kb_entries stale_kb_world = []
   \<and> fst (search stale_kb_world example_search_env ''hours'' ''en'' 5) = Inr (Some stale_result)"
proof -
  have g: "kb_cache_get stale_kb_world (searchCacheKey ''hours'' ''en'' 5) (search_clock example_search_env)
      = Some [stale_result]"
    by (simp add: kb_cache_get_def stale_kb_world_def example_search_env_def)
  have "search_try stale_kb_world example_search_env ''hours'' ''en'' 5 =
      (Inr (Some stale_result), stale_kb_world)"
    by (simp add: search_try_def Let_def hours_normalized g firstOrNull_def)
  then show ?thesis
    by (simp add: search_def stale_kb_world_def)
qed

theorem search_no_active_entries_witness:
  "fst (search empty_kb_world example_search_env ''hours'' ''en'' 5) = Inr None
   \<and> (\<exists>r. fst (search stale_kb_world example_search_env ''hours'' ''en'' 5) = Inr r)"
proof -
  have e: "\<forall>e \<in> set (kb_entries empty_kb_world). \<not> (kb_language e = ''en'' \<and> isActive e)"
    by (simp add: empty_kb_world_def)
  have g: "kb_cache_get empty_kb_world key now = None" for key now
    by (simp add: kb_cache_get_def empty_kb_world_def)
  from search_no_active_entries[where w=empty_kb_world and env=example_search_env
      and query="''hours''" and language="''en''" and limit=5]
    search_no_active_entries[where w=stale_kb_world and env=example_search_env
      and query="''hours''" and language="''en''" and limit=5] e g
  show ?thesis by simp
qed

subsection \<open>Extracting title and description of a ticket\<close>




















end
